theory Spec2Isabelle
  imports Complex_Main
begin

section \<open>Data model\<close>

text \<open>
  Tensors of floating-point numbers are modelled over the reals: a vector is a
  \<open>real list\<close>, a batch of rows a \<open>real list list\<close>. Rounding is outside the model.
  Every exception the modelled code can raise is a value of \<open>error\<close>, and a fallible
  function returns \<open>error + 'a\<close> with \<open>Inl\<close> for the raised exception.
\<close>

datatype error = AssertionError | ValueError | AttributeError | ZeroDivisionError | TorchError

type_synonym tensor = "real list list"

subsection \<open>DQNPolicy (modelfree/dqn.py)\<close>





subsection \<open>DiscreteBCQPolicy (imitation/discrete_bcq.py)\<close>








subsection \<open>Networks and the lagged-network mixins\<close>














subsection \<open>Off-policy actor-critic algorithms with Polyak-updated targets (modelfree/ddpg.py, td3.py, redq.py, discrete_sac.py)\<close>














subsection \<open>Q-learning algorithms with a periodically copied target (modelfree/dqn.py)\<close>







subsection \<open>DiscreteBCQ (imitation/discrete_bcq.py)\<close>





subsection \<open>Discounted returns and running statistics (modelfree/pg.py)\<close>

text \<open>
  \<open>RunningMeanStd\<close> of \<open>tianshou/utils\<close> is not among the available sources. The code reads its
  attributes \<open>mean\<close> and \<open>var\<close> and calls its \<open>update\<close>; the record holds the two
  attributes, and \<open>update\<close> is a parameter \<open>rms_update\<close> of the functions that call it.
\<close>

record RunningMeanStd =
  rms_mean :: real
  rms_var :: real

type_synonym rms_update = "RunningMeanStd \<Rightarrow> real list \<Rightarrow> RunningMeanStd"

text \<open>
  One transition of a batch. \<open>obs\<close> and \<open>obs_next\<close> are the observations as a critic
  reads them.
\<close>

record 'o transition =
  obs :: 'o
  obs_next :: 'o
  rew :: real
  terminated :: bool
  truncated :: bool

text \<open>
  Modelled from the spec: the batch's \<open>done\<close> column is declared in \<open>tianshou/data\<close>,
  which is not among the available sources. Section 3 and the glossary: a transition
  marked terminated or truncated is an episode boundary (done). The docstring of
  \<open>add_discounted_returns\<close> agrees: the end of each finished episode is marked by the
  done flag.
\<close>

definition done_flag :: "'o transition \<Rightarrow> bool" where
  "done_flag t = (terminated t \<or> truncated t)"

text \<open>
  \<open>Algorithm.compute_episodic_return(batch, buffer, indices, v_s_, v_s, gamma,
  gae_lambda)\<close> of \<open>tianshou/policy/base.py\<close> is not among the available sources; the functions that
  call it take it as the parameter \<open>cer\<close>, from the batch, \<open>v_s_\<close>, the optional
  \<open>v_s\<close>, \<open>gamma\<close> and \<open>gae_lambda\<close> to the pair of returns and advantages.
\<close>

type_synonym 'o episodic_return =
  "'o transition list \<Rightarrow> real list \<Rightarrow> real list option \<Rightarrow> real \<Rightarrow> real \<Rightarrow> real list \<times> real list"

record DiscountedReturnComputation =
  drc_gamma :: real
  drc_rew_norm :: bool
  drc_ret_rms :: RunningMeanStd
  drc_eps :: real

text \<open>
  \<open>DiscountedReturnComputation.__init__\<close>; \<open>rms0\<close> is the freshly constructed
  \<open>RunningMeanStd()\<close>.
\<close>

definition DiscountedReturnComputation_init ::
    "RunningMeanStd \<Rightarrow> real \<Rightarrow> bool \<Rightarrow> error + DiscountedReturnComputation" where
  "DiscountedReturnComputation_init rms0 discount_factor reward_normalization =
     (if \<not> (0 \<le> discount_factor \<and> discount_factor \<le> 1) then Inl AssertionError
      else Inr \<lparr>drc_gamma = discount_factor, drc_rew_norm = reward_normalization,
                 drc_ret_rms = rms0, drc_eps = 1 / 10 ^ 8\<rparr>)"

text \<open>
  \<open>DiscountedReturnComputation.add_discounted_returns\<close>: the result is the batch's new
  \<open>returns\<close> column and the object after the call. \<open>drc_unnormalized_returns\<close> is the
  local \<open>unnormalized_returns\<close>; \<open>indices\<close> has the batch's length, the batch being
  \<open>buffer[indices]\<close>.
\<close>

definition drc_unnormalized_returns ::
    "'o episodic_return \<Rightarrow> DiscountedReturnComputation \<Rightarrow> 'o transition list \<Rightarrow> real list" where
  "drc_unnormalized_returns cer st batch =
     (let v_s' = replicate (length batch) (rms_mean (drc_ret_rms st))
      in fst (cer batch v_s' None (drc_gamma st) 1))"

definition add_discounted_returns ::
    "'o episodic_return \<Rightarrow> rms_update \<Rightarrow> DiscountedReturnComputation \<Rightarrow> 'o transition list
       \<Rightarrow> real list \<times> DiscountedReturnComputation" where
  "add_discounted_returns cer upd st batch =
     (let unnormalized_returns = drc_unnormalized_returns cer st batch
      in if drc_rew_norm st then
           (map (\<lambda>r. (r - rms_mean (drc_ret_rms st)) / sqrt (rms_var (drc_ret_rms st) + drc_eps st))
              unnormalized_returns,
            st\<lparr>drc_ret_rms := upd (drc_ret_rms st) unnormalized_returns\<rparr>)
         else (unnormalized_returns, st))"

subsection \<open>DiscreteCRR (imitation/discrete_crr.py)\<close>



text \<open>
  The critic target of \<open>DiscreteCRR._update_with_batch\<close> (the \<open>no_grad\<close> block):
  \<open>q_t_target\<close> is the output of \<open>critic_old\<close> and \<open>probs\<close> that of the categorical
  distribution of \<open>actor_old\<close> on \<open>obs_next\<close>, one row per transition.
\<close>

definition crr_critic_target ::
    "real \<Rightarrow> 'o transition list \<Rightarrow> tensor \<Rightarrow> tensor \<Rightarrow> real list" where
  "crr_critic_target gamma' batch q_t_target probs =
     (let expected_target_q = map2 (\<lambda>q p. sum_list (map2 (*) q p)) q_t_target probs;
          expected_target_q' = map2 (\<lambda>t e. if done_flag t then 0 else e) batch expected_target_q
      in map2 (\<lambda>t e. rew t + gamma' * e) batch expected_target_q')"



subsection \<open>On-policy actor-critic algorithms with GAE (modelfree/a2c.py)\<close>

record ActorCriticOnPolicy =
  gae_lambda :: real
  max_batchsize :: int
  onp_gamma :: real
  onp_rew_norm :: bool
  ret_rms :: RunningMeanStd
  onp_eps :: real

text \<open>
  \<open>ActorCriticOnPolicyAlgorithm.__init__\<close>; \<open>onp_gamma\<close>, \<open>onp_rew_norm\<close> and
  \<open>onp_eps\<close> are the fields \<open>gamma\<close>, \<open>rew_norm\<close> and \<open>_eps\<close>. \<open>discount_factor\<close>
  is stored unchecked.
\<close>

definition ActorCriticOnPolicyAlgorithm_init ::
    "RunningMeanStd \<Rightarrow> real \<Rightarrow> int \<Rightarrow> real \<Rightarrow> bool \<Rightarrow> error + ActorCriticOnPolicy" where
  "ActorCriticOnPolicyAlgorithm_init rms0 gae_lambda' max_batchsize' discount_factor
       reward_normalization =
     (if \<not> (0 \<le> gae_lambda' \<and> gae_lambda' \<le> 1) then Inl AssertionError
      else Inr \<lparr>gae_lambda = gae_lambda', max_batchsize = max_batchsize',
                 onp_gamma = discount_factor, onp_rew_norm = reward_normalization,
                 ret_rms = rms0, onp_eps = 1 / 10 ^ 8\<rparr>)"

text \<open>
  \<open>ActorCriticOnPolicyAlgorithm._add_returns_and_advantages\<close>. The critic maps a
  minibatch of observations to its flattened values; \<open>Batch.split\<close> (not among the
  available sources) is the parameter \<open>split\<close>. \<open>critic_v_s\<close> and \<open>critic_v_s'\<close> are the
  concatenated critic outputs on \<open>obs\<close> and \<open>obs_next\<close> (\<open>batch.v_s\<close> and the first
  value of the local \<open>v_s_\<close>); \<open>onp_scale\<close> is \<open>np.sqrt(self.ret_rms.var + self._eps)\<close>;
  \<open>passed_v_s\<close> and \<open>passed_v_s'\<close> are the arrays handed to \<open>compute_episodic_return\<close>.
\<close>

type_synonym 'o critic = "'o list \<Rightarrow> real list"

type_synonym 'o batch_split = "int \<Rightarrow> 'o transition list \<Rightarrow> 'o transition list list"

definition critic_v_s ::
    "'o critic \<Rightarrow> 'o batch_split \<Rightarrow> ActorCriticOnPolicy \<Rightarrow> 'o transition list \<Rightarrow> real list" where
  "critic_v_s critic split st batch =
     concat (map (\<lambda>minibatch. critic (map obs minibatch)) (split (max_batchsize st) batch))"

definition critic_v_s' ::
    "'o critic \<Rightarrow> 'o batch_split \<Rightarrow> ActorCriticOnPolicy \<Rightarrow> 'o transition list \<Rightarrow> real list" where
  "critic_v_s' critic split st batch =
     concat (map (\<lambda>minibatch. critic (map obs_next minibatch)) (split (max_batchsize st) batch))"

definition onp_scale :: "ActorCriticOnPolicy \<Rightarrow> real" where
  "onp_scale st = sqrt (rms_var (ret_rms st) + onp_eps st)"

definition passed_v_s ::
    "'o critic \<Rightarrow> 'o batch_split \<Rightarrow> ActorCriticOnPolicy \<Rightarrow> 'o transition list \<Rightarrow> real list" where
  "passed_v_s critic split st batch =
     (if onp_rew_norm st then map (\<lambda>v. v * onp_scale st) (critic_v_s critic split st batch)
      else critic_v_s critic split st batch)"

definition passed_v_s' ::
    "'o critic \<Rightarrow> 'o batch_split \<Rightarrow> ActorCriticOnPolicy \<Rightarrow> 'o transition list \<Rightarrow> real list" where
  "passed_v_s' critic split st batch =
     (if onp_rew_norm st then map (\<lambda>v. v * onp_scale st) (critic_v_s' critic split st batch)
      else critic_v_s' critic split st batch)"

definition onp_episodic_return ::
    "'o episodic_return \<Rightarrow> 'o critic \<Rightarrow> 'o batch_split \<Rightarrow> ActorCriticOnPolicy
       \<Rightarrow> 'o transition list \<Rightarrow> real list \<times> real list" where
  "onp_episodic_return cer critic split st batch =
     cer batch (passed_v_s' critic split st batch) (Some (passed_v_s critic split st batch))
       (onp_gamma st) (gae_lambda st)"

text \<open>
  The batch columns the call writes, and the object after the call.
\<close>

record advantages_batch =
  b_v_s :: "real list"
  b_returns :: "real list"
  b_adv :: "real list"

definition add_returns_and_advantages ::
    "'o episodic_return \<Rightarrow> rms_update \<Rightarrow> 'o critic \<Rightarrow> 'o batch_split \<Rightarrow> ActorCriticOnPolicy
       \<Rightarrow> 'o transition list \<Rightarrow> advantages_batch \<times> ActorCriticOnPolicy" where
  "add_returns_and_advantages cer upd critic split st batch =
     (let unnormalized_returns = fst (onp_episodic_return cer critic split st batch);
          advantages = snd (onp_episodic_return cer critic split st batch)
      in if onp_rew_norm st then
           (\<lparr>b_v_s = critic_v_s critic split st batch,
             b_returns = map (\<lambda>r. r / onp_scale st) unnormalized_returns,
             b_adv = advantages\<rparr>,
            st\<lparr>ret_rms := upd (ret_rms st) unnormalized_returns\<rparr>)
         else
           (\<lparr>b_v_s = critic_v_s critic split st batch,
             b_returns = unnormalized_returns,
             b_adv = advantages\<rparr>,
            st))"

subsection \<open>Successive batches\<close>

text \<open>
  Preprocessing one batch after another with the same object: the outputs in order and
  the object at the end. \<open>drc_unnormalized_seq\<close> and \<open>onp_unnormalized_seq\<close> list the
  local \<open>unnormalized_returns\<close> of the successive calls.
\<close>

fun drc_run ::
    "'o episodic_return \<Rightarrow> rms_update \<Rightarrow> DiscountedReturnComputation \<Rightarrow> 'o transition list list
       \<Rightarrow> real list list \<times> DiscountedReturnComputation" where
  "drc_run cer upd st [] = ([], st)"
| "drc_run cer upd st (batch # rest) =
     (let r = add_discounted_returns cer upd st batch;
          rs = drc_run cer upd (snd r) rest
      in (fst r # fst rs, snd rs))"

fun drc_unnormalized_seq ::
    "'o episodic_return \<Rightarrow> rms_update \<Rightarrow> DiscountedReturnComputation \<Rightarrow> 'o transition list list
       \<Rightarrow> real list list" where
  "drc_unnormalized_seq cer upd st [] = []"
| "drc_unnormalized_seq cer upd st (batch # rest) =
     drc_unnormalized_returns cer st batch
       # drc_unnormalized_seq cer upd (snd (add_discounted_returns cer upd st batch)) rest"

fun onp_run ::
    "'o episodic_return \<Rightarrow> rms_update \<Rightarrow> 'o critic \<Rightarrow> 'o batch_split \<Rightarrow> ActorCriticOnPolicy
       \<Rightarrow> 'o transition list list \<Rightarrow> advantages_batch list \<times> ActorCriticOnPolicy" where
  "onp_run cer upd critic split st [] = ([], st)"
| "onp_run cer upd critic split st (batch # rest) =
     (let r = add_returns_and_advantages cer upd critic split st batch;
          rs = onp_run cer upd critic split (snd r) rest
      in (fst r # fst rs, snd rs))"

fun onp_unnormalized_seq ::
    "'o episodic_return \<Rightarrow> rms_update \<Rightarrow> 'o critic \<Rightarrow> 'o batch_split \<Rightarrow> ActorCriticOnPolicy
       \<Rightarrow> 'o transition list list \<Rightarrow> real list list" where
  "onp_unnormalized_seq cer upd critic split st [] = []"
| "onp_unnormalized_seq cer upd critic split st (batch # rest) =
     fst (onp_episodic_return cer critic split st batch)
       # onp_unnormalized_seq cer upd critic split
           (snd (add_returns_and_advantages cer upd critic split st batch)) rest"

subsection \<open>Episodic returns and generalized advantage estimation\<close>

text \<open>
  Modelled from the spec: \<open>Algorithm.compute_episodic_return\<close> of
  \<open>tianshou/policy/base.py\<close> is not among the available sources. Section 4.3: the TD residual is
  \<open>\<delta>\<^sub>i = r\<^sub>i + \<gamma> V(s\<^sub>i\<^sub>+\<^sub>1) (1 - done\<^sub>i) - V(s\<^sub>i)\<close>, the advantage is
  \<open>A\<^sub>i = \<delta>\<^sub>i + \<gamma> \<lambda> (1 - done\<^sub>i) A\<^sub>n\<^sub>e\<^sub>x\<^sub>t\<^sub>(\<^sub>i\<^sub>)\<close>, evaluated backwards and reset at an
  episode boundary, and the returns are \<open>V(s\<^sub>i) + A\<^sub>i\<close>. The batch is one chronological
  run of transitions; after its last transition there is no advantage to add.
  \<open>v_s'\<close> holds \<open>V(s\<^sub>i\<^sub>+\<^sub>1)\<close> and \<open>v_s\<close> holds \<open>V(s\<^sub>i)\<close>. The spec does not say which
  baseline \<open>v_s\<close> stands in when the caller passes none: it is the parameter \<open>dflt\<close>,
  a function of \<open>v_s'\<close>.
\<close>

definition td_residual :: "real \<Rightarrow> 'o transition \<Rightarrow> real \<Rightarrow> real \<Rightarrow> real" where
  "td_residual g t v' v = rew t + g * v' * (1 - of_bool (done_flag t)) - v"

fun gae :: "real \<Rightarrow> real \<Rightarrow> 'o transition list \<Rightarrow> real list \<Rightarrow> real list \<Rightarrow> real list" where
  "gae g l (t # ts) (v' # vs') (v # vs) =
     (let rest = gae g l ts vs' vs;
          nxt = (case rest of [] \<Rightarrow> 0 | a # _ \<Rightarrow> a)
      in (td_residual g t v' v + g * l * (1 - of_bool (done_flag t)) * nxt) # rest)"
| "gae g l _ _ _ = []"

definition compute_episodic_return :: "(real list \<Rightarrow> real list) \<Rightarrow> 'o episodic_return" where
  "compute_episodic_return dflt batch v_s' v_s_opt g l =
     (let v_s = (case v_s_opt of None \<Rightarrow> dflt v_s' | Some v \<Rightarrow> v);
          advantage = gae g l batch v_s' v_s
      in (map2 (+) v_s advantage, advantage))"

text \<open>
  Modelled from the spec: the Monte-Carlo discounted return of section 4.3 and of the
  docstring of \<open>add_discounted_returns\<close>, \<open>G\<^sub>t = \<Sum>\<^sub>i \<gamma>\<^sup>i\<^sup>-\<^sup>t r\<^sub>i\<close> up to the end of the
  episode: each reward plus the discounted return of the next transition, nothing
  beyond a done transition, and the supplied value estimate \<open>v_s'\<close> where the batch
  ends before the episode does.
\<close>

fun mc_returns :: "real \<Rightarrow> 'o transition list \<Rightarrow> real list \<Rightarrow> real list" where
  "mc_returns g (t # ts) (v' # vs') =
     (let rest = mc_returns g ts vs';
          cont = (case rest of [] \<Rightarrow> v' | r # _ \<Rightarrow> r)
      in (rew t + g * (1 - of_bool (done_flag t)) * cont) # rest)"
| "mc_returns g _ _ = []"



subsection \<open>A concrete run of TD3\<close>





subsection \<open>Concrete algorithms with a target copied every second call\<close>




subsection \<open>A concrete batch and concrete return computations\<close>

text \<open>
  Three transitions over observations numbered by naturals: an episode of two
  transitions that terminates, then the first transition of an episode still running.
  The critic of the concrete runs values observation \<open>n\<close> at \<open>n\<close>; the batch is shorter
  than \<open>max_batchsize\<close>, so it is split into the one minibatch; the running statistics,
  whose own update is not among the available sources, are replaced by the mean and variance of the
  latest batch; and the baseline standing in for an absent \<open>v_s\<close> is \<open>v_s'\<close> itself.
\<close>

definition example_batch :: "nat transition list" where
  "example_batch =
     [\<lparr>obs = 0, obs_next = 1, rew = 1, terminated = False, truncated = False\<rparr>,
      \<lparr>obs = 1, obs_next = 2, rew = 2, terminated = True, truncated = False\<rparr>,
      \<lparr>obs = 10, obs_next = 11, rew = 3, terminated = False, truncated = False\<rparr>]"

definition example_critic :: "nat critic" where
  "example_critic = map real"

definition example_split :: "nat batch_split" where
  "example_split n batch = [batch]"

definition example_update :: rms_update where
  "example_update r xs =
     \<lparr>rms_mean = sum_list xs / real (length xs),
      rms_var = sum_list (map (\<lambda>x. (x - sum_list xs / real (length xs)) ^ 2) xs) / real (length xs)\<rparr>"

definition example_cer :: "nat episodic_return" where
  "example_cer = compute_episodic_return id"

definition example_drc :: DiscountedReturnComputation where
  "example_drc = projr (DiscountedReturnComputation_init \<lparr>rms_mean = 0, rms_var = 1\<rparr> (1 / 2) True)"

definition example_onp :: ActorCriticOnPolicy where
  "example_onp =
     projr (ActorCriticOnPolicyAlgorithm_init \<lparr>rms_mean = 0, rms_var = 4 - 1 / 10 ^ 8\<rparr>
              1 256 (1 / 2) True)"

section \<open>Properties\<close>

subsection \<open>The critic target of DiscreteCRR\<close>

text \<open>
  Claim C1, at a failing input. One transition with reward 1, cut off by truncation and
  not terminated, with expected target Q 5 on the next observation and discount 0.99:
  the critic target is the bare reward 1, because \<open>batch.done\<close> is set at a truncation
  too; the same transition with neither flag set gets \<open>1 + 0.99 * 5\<close>.
\<close>

theorem crr_target_drops_bootstrap_at_truncation:
  "crr_critic_target (99 / 100)
      [\<lparr>obs = (), obs_next = (), rew = 1, terminated = False, truncated = True\<rparr>] [[5]] [[1]]
     = [1]
   \<and> crr_critic_target (99 / 100)
      [\<lparr>obs = (), obs_next = (), rew = 1, terminated = False, truncated = False\<rparr>] [[5]] [[1]]
     = [1 + 99 / 100 * 5]"
  by (simp add: crr_critic_target_def done_flag_def)

subsection \<open>Generalized advantage estimation at its two ends\<close>



lemma mc_returns_length:
  "length vs' = length batch \<Longrightarrow> length (mc_returns g batch vs') = length batch"
proof (induction batch arbitrary: vs')
  case Nil
  then show ?case by simp
next
  case (Cons t ts)
  then obtain v' ws' where "vs' = v' # ws'" by (metis length_Suc_conv)
  then show ?case using Cons by (simp add: Let_def)
qed





lemma mc_returns_complete_episode:
  assumes "length vs' = length batch" "batch \<noteq> []"
    "\<forall>i < length batch. done_flag (batch ! i) \<longleftrightarrow> Suc i = length batch"
  shows "mc_returns g batch vs' ! 0 = (\<Sum>i < length batch. g ^ i * rew (batch ! i))"
  using assms
proof (induction batch arbitrary: vs')
  case Nil
  then show ?case by simp
next
  case (Cons t ts)
  note prems = Cons.prems and IH = Cons.IH
  obtain v' ws' where e: "vs' = v' # ws'" using prems(1) by (metis length_Suc_conv)
  show ?case
  proof (cases ts)
    case Nil
    then have "done_flag t" using prems(3) by simp
    then show ?thesis using Nil e by (simp add: Let_def)
  next
    case ts_def: (Cons t2 ts2)
    have nd: "\<not> done_flag t" using prems(3) ts_def by auto
    have len: "length ws' = length ts" using prems(1) e by simp
    have d: "\<forall>i < length ts. done_flag (ts ! i) \<longleftrightarrow> Suc i = length ts"
    proof (intro allI impI)
      fix i assume "i < length ts"
      then have "done_flag ((t # ts) ! Suc i) \<longleftrightarrow> Suc (Suc i) = length (t # ts)"
        using prems(3) by (metis Suc_less_eq length_Cons)
      then show "done_flag (ts ! i) \<longleftrightarrow> Suc i = length ts" by simp
    qed
    have ih: "mc_returns g ts ws' ! 0 = (\<Sum>i < length ts. g ^ i * rew (ts ! i))"
      using IH[OF len _ d] ts_def by simp
    obtain r rs where mr: "mc_returns g ts ws' = r # rs"
      using ts_def len by (cases ws') (simp_all add: Let_def)
    have "(\<Sum>i < Suc (length ts). g ^ i * rew ((t # ts) ! i))
            = g ^ 0 * rew ((t # ts) ! 0) + (\<Sum>i < length ts. g ^ Suc i * rew ((t # ts) ! Suc i))"
      by (rule sum.lessThan_Suc_shift)
    then have "(\<Sum>i < length (t # ts). g ^ i * rew ((t # ts) ! i))
            = rew t + (\<Sum>i < length ts. g ^ Suc i * rew (ts ! i))"
      by simp
    also have "\<dots> = rew t + g * (\<Sum>i < length ts. g ^ i * rew (ts ! i))"
      by (simp add: sum_distrib_left mult.assoc)
    finally show ?thesis using e mr ih nd by (simp add: Let_def)
  qed
qed





subsection \<open>Polyak updates of the off-policy actor-critic algorithms\<close>





















subsection \<open>Validation of hyperparameters at construction\<close>





subsection \<open>Periodic full updates of the target network\<close>
























subsection \<open>Return normalization\<close>

text \<open>
  Claim C6. With reward normalization enabled, the arrays \<open>v_s\<close> and \<open>v_s_\<close> handed to
  the episodic-return computation are the critic's values multiplied by
  \<open>sqrt (var + eps)\<close> of the running statistics as they stand before the call, and the
  batch's returns are the computation's unnormalized returns divided by that same
  number; with normalization disabled the critic's values are handed over and the
  unnormalized returns are stored as they are.
\<close>

theorem add_returns_unnormalizes_values:
  "(onp_rew_norm st \<longrightarrow>
      passed_v_s critic split st batch
        = map (\<lambda>v. v * sqrt (rms_var (ret_rms st) + onp_eps st)) (critic_v_s critic split st batch)
      \<and> passed_v_s' critic split st batch
        = map (\<lambda>v. v * sqrt (rms_var (ret_rms st) + onp_eps st)) (critic_v_s' critic split st batch)
      \<and> b_returns (fst (add_returns_and_advantages cer upd critic split st batch))
        = map (\<lambda>r. r / sqrt (rms_var (ret_rms st) + onp_eps st))
            (fst (cer batch (passed_v_s' critic split st batch)
                    (Some (passed_v_s critic split st batch)) (onp_gamma st) (gae_lambda st))))
   \<and> (\<not> onp_rew_norm st \<longrightarrow>
      passed_v_s critic split st batch = critic_v_s critic split st batch
      \<and> passed_v_s' critic split st batch = critic_v_s' critic split st batch
      \<and> b_returns (fst (add_returns_and_advantages cer upd critic split st batch))
        = fst (cer batch (critic_v_s' critic split st batch)
                 (Some (critic_v_s critic split st batch)) (onp_gamma st) (gae_lambda st)))"
  by (simp add: add_returns_and_advantages_def onp_episodic_return_def passed_v_s_def
      passed_v_s'_def onp_scale_def Let_def)

lemma add_discounted_returns_norm:
  assumes "drc_rew_norm st"
  shows "fst (add_discounted_returns cer upd st b)
           = map (\<lambda>r. (r - rms_mean (drc_ret_rms st)) / sqrt (rms_var (drc_ret_rms st) + drc_eps st))
               (drc_unnormalized_returns cer st b)"
    and "drc_ret_rms (snd (add_discounted_returns cer upd st b))
           = upd (drc_ret_rms st) (drc_unnormalized_returns cer st b)"
    and "drc_rew_norm (snd (add_discounted_returns cer upd st b))"
    and "drc_eps (snd (add_discounted_returns cer upd st b)) = drc_eps st"
  using assms by (simp_all add: add_discounted_returns_def Let_def)

lemma drc_run_lag:
  assumes "drc_rew_norm st" "k < length bs"
  shows "fst (drc_run cer upd st bs) ! k
           = map (\<lambda>r. (r - rms_mean (foldl upd (drc_ret_rms st)
                                        (take k (drc_unnormalized_seq cer upd st bs))))
                       / sqrt (rms_var (foldl upd (drc_ret_rms st)
                                          (take k (drc_unnormalized_seq cer upd st bs)))
                               + drc_eps st))
               (drc_unnormalized_seq cer upd st bs ! k)"
  using assms
proof (induction bs arbitrary: st k)
  case Nil
  then show ?case by simp
next
  case (Cons b rest)
  note n = add_discounted_returns_norm[OF Cons.prems(1), of cer upd b]
  show ?case
  proof (cases k)
    case 0
    then show ?thesis by (simp add: Let_def n)
  next
    case (Suc j)
    then have "j < length rest" using Cons.prems(2) by simp
    from Cons.IH[OF n(3) this] show ?thesis using Suc by (simp add: Let_def n)
  qed
qed

lemma drc_run_stats:
  assumes "drc_rew_norm st"
  shows "drc_ret_rms (snd (drc_run cer upd st bs))
           = foldl upd (drc_ret_rms st) (drc_unnormalized_seq cer upd st bs)"
  using assms
proof (induction bs arbitrary: st)
  case Nil
  then show ?case by simp
next
  case (Cons b rest)
  note n = add_discounted_returns_norm[OF Cons.prems(1), of cer upd b]
  from Cons.IH[OF n(3)] show ?case by (simp add: Let_def n)
qed

lemma drc_unnormalized_seq_take:
  "drc_unnormalized_seq cer upd st (take k bs) = take k (drc_unnormalized_seq cer upd st bs)"
proof (induction bs arbitrary: st k)
  case Nil
  then show ?case by simp
next
  case (Cons b rest)
  then show ?case by (cases k) simp_all
qed

lemma add_returns_norm:
  assumes "onp_rew_norm st"
  shows "b_returns (fst (add_returns_and_advantages cer upd critic split st b))
           = map (\<lambda>r. r / sqrt (rms_var (ret_rms st) + onp_eps st))
               (fst (onp_episodic_return cer critic split st b))"
    and "ret_rms (snd (add_returns_and_advantages cer upd critic split st b))
           = upd (ret_rms st) (fst (onp_episodic_return cer critic split st b))"
    and "onp_rew_norm (snd (add_returns_and_advantages cer upd critic split st b))"
    and "onp_eps (snd (add_returns_and_advantages cer upd critic split st b)) = onp_eps st"
  using assms by (simp_all add: add_returns_and_advantages_def onp_scale_def Let_def)

lemma onp_run_lag:
  assumes "onp_rew_norm st" "k < length bs"
  shows "b_returns (fst (onp_run cer upd critic split st bs) ! k)
           = map (\<lambda>r. r / sqrt (rms_var (foldl upd (ret_rms st)
                                   (take k (onp_unnormalized_seq cer upd critic split st bs)))
                               + onp_eps st))
               (onp_unnormalized_seq cer upd critic split st bs ! k)"
  using assms
proof (induction bs arbitrary: st k)
  case Nil
  then show ?case by simp
next
  case (Cons b rest)
  note n = add_returns_norm[OF Cons.prems(1), of cer upd critic split b]
  show ?case
  proof (cases k)
    case 0
    then show ?thesis by (simp add: Let_def n)
  next
    case (Suc j)
    then have "j < length rest" using Cons.prems(2) by simp
    from Cons.IH[OF n(3) this] show ?thesis using Suc by (simp add: Let_def n)
  qed
qed

lemma onp_run_stats:
  assumes "onp_rew_norm st"
  shows "ret_rms (snd (onp_run cer upd critic split st bs))
           = foldl upd (ret_rms st) (onp_unnormalized_seq cer upd critic split st bs)"
  using assms
proof (induction bs arbitrary: st)
  case Nil
  then show ?case by simp
next
  case (Cons b rest)
  note n = add_returns_norm[OF Cons.prems(1), of cer upd critic split b]
  from Cons.IH[OF n(3)] show ?case by (simp add: Let_def n)
qed

lemma onp_unnormalized_seq_take:
  "onp_unnormalized_seq cer upd critic split st (take k bs)
     = take k (onp_unnormalized_seq cer upd critic split st bs)"
proof (induction bs arbitrary: st k)
  case Nil
  then show ?case by simp
next
  case (Cons b rest)
  then show ?case by (cases k) simp_all
qed

text \<open>
  Claim C7. With reward normalization enabled, over any sequence of batches processed
  by one object, the returns of batch \<open>k\<close> are normalized with the running statistics
  obtained from the initial ones by the updates with the unnormalized returns of the
  batches \<open>0, \<dots>, k - 1\<close> in order, and with nothing of batch \<open>k\<close>; the update with
  batch \<open>k\<close>'s unnormalized returns is in the statistics only after batch \<open>k\<close> has been
  processed. This holds for \<open>DiscountedReturnComputation.add_discounted_returns\<close> (which
  subtracts the mean and divides) and for
  \<open>ActorCriticOnPolicyAlgorithm._add_returns_and_advantages\<close> (which only divides).
\<close>

theorem stats_lag_one_batch:
  assumes "drc_rew_norm st" and "onp_rew_norm a" and "k < length bs"
  shows "fst (drc_run cer upd st bs) ! k
           = map (\<lambda>r. (r - rms_mean (foldl upd (drc_ret_rms st)
                                        (take k (drc_unnormalized_seq cer upd st bs))))
                       / sqrt (rms_var (foldl upd (drc_ret_rms st)
                                          (take k (drc_unnormalized_seq cer upd st bs)))
                               + drc_eps st))
               (drc_unnormalized_seq cer upd st bs ! k)
     \<and> drc_ret_rms (snd (drc_run cer upd st (take (Suc k) bs)))
           = upd (foldl upd (drc_ret_rms st) (take k (drc_unnormalized_seq cer upd st bs)))
               (drc_unnormalized_seq cer upd st bs ! k)
     \<and> b_returns (fst (onp_run cer upd critic split a bs) ! k)
           = map (\<lambda>r. r / sqrt (rms_var (foldl upd (ret_rms a)
                                   (take k (onp_unnormalized_seq cer upd critic split a bs)))
                               + onp_eps a))
               (onp_unnormalized_seq cer upd critic split a bs ! k)
     \<and> ret_rms (snd (onp_run cer upd critic split a (take (Suc k) bs)))
           = upd (foldl upd (ret_rms a) (take k (onp_unnormalized_seq cer upd critic split a bs)))
               (onp_unnormalized_seq cer upd critic split a bs ! k)"
proof (intro conjI)
  show "fst (drc_run cer upd st bs) ! k
           = map (\<lambda>r. (r - rms_mean (foldl upd (drc_ret_rms st)
                                        (take k (drc_unnormalized_seq cer upd st bs))))
                       / sqrt (rms_var (foldl upd (drc_ret_rms st)
                                          (take k (drc_unnormalized_seq cer upd st bs)))
                               + drc_eps st))
               (drc_unnormalized_seq cer upd st bs ! k)"
    by (rule drc_run_lag[OF assms(1,3)])
  have lk: "k < length (drc_unnormalized_seq cer upd st bs)"
    using assms(3) by (induction bs arbitrary: st k) (auto simp: less_Suc_eq_0_disj)
  show "drc_ret_rms (snd (drc_run cer upd st (take (Suc k) bs)))
           = upd (foldl upd (drc_ret_rms st) (take k (drc_unnormalized_seq cer upd st bs)))
               (drc_unnormalized_seq cer upd st bs ! k)"
    using drc_run_stats[OF assms(1), of cer upd "take (Suc k) bs"] lk
    by (simp add: drc_unnormalized_seq_take take_Suc_conv_app_nth)
  show "b_returns (fst (onp_run cer upd critic split a bs) ! k)
           = map (\<lambda>r. r / sqrt (rms_var (foldl upd (ret_rms a)
                                   (take k (onp_unnormalized_seq cer upd critic split a bs)))
                               + onp_eps a))
               (onp_unnormalized_seq cer upd critic split a bs ! k)"
    by (rule onp_run_lag[OF assms(2,3)])
  have lk': "k < length (onp_unnormalized_seq cer upd critic split a bs)"
    using assms(3) by (induction bs arbitrary: a k) (auto simp: less_Suc_eq_0_disj)
  show "ret_rms (snd (onp_run cer upd critic split a (take (Suc k) bs)))
           = upd (foldl upd (ret_rms a) (take k (onp_unnormalized_seq cer upd critic split a bs)))
               (onp_unnormalized_seq cer upd critic split a bs ! k)"
    using onp_run_stats[OF assms(2), of cer upd critic split "take (Suc k) bs"] lk'
    by (simp add: onp_unnormalized_seq_take take_Suc_conv_app_nth)
qed

lemma example_onp_fields:
  "onp_rew_norm example_onp" "onp_gamma example_onp = 1 / 2" "gae_lambda example_onp = 1"
  "rms_var (ret_rms example_onp) + onp_eps example_onp = 4" "max_batchsize example_onp = 256"
  by (simp_all add: example_onp_def ActorCriticOnPolicyAlgorithm_init_def)

lemma example_critic_values:
  "critic_v_s example_critic example_split st example_batch = [0, 1, 10]"
  "critic_v_s' example_critic example_split st example_batch = [1, 2, 11]"
  by (simp_all add: critic_v_s_def critic_v_s'_def example_critic_def example_split_def
      example_batch_def)

lemma example_cer_values:
  "example_cer example_batch [2, 4, 22] (Some [0, 2, 20]) (1 / 2) 1
     = ([2, 2, 14], [2, 0, - 6])"
  "example_cer example_batch [1, 2, 11] (Some [0, 1, 10]) (1 / 2) 1
     = ([2, 2, 17 / 2], [2, 1, - (3 / 2)])"
  by (simp_all add: example_cer_def compute_episodic_return_def example_batch_def done_flag_def
      td_residual_def Let_def)

theorem add_returns_unnormalizes_values_witness:
  "onp_rew_norm example_onp
   \<and> passed_v_s example_critic example_split example_onp example_batch = [0, 2, 20]
   \<and> passed_v_s' example_critic example_split example_onp example_batch = [2, 4, 22]
   \<and> b_returns (fst (add_returns_and_advantages example_cer example_update example_critic
                        example_split example_onp example_batch)) = [1, 1, 7]
   \<and> \<not> onp_rew_norm (example_onp\<lparr>onp_rew_norm := False\<rparr>)
   \<and> b_returns (fst (add_returns_and_advantages example_cer example_update example_critic
                        example_split (example_onp\<lparr>onp_rew_norm := False\<rparr>) example_batch))
        = [2, 2, 17 / 2]"
proof -
  note on = add_returns_unnormalizes_values[where st = example_onp and critic = example_critic
      and split = example_split and batch = example_batch and cer = example_cer
      and upd = example_update, THEN conjunct1, THEN mp, OF example_onp_fields(1)]
  have off_h: "\<not> onp_rew_norm (example_onp\<lparr>onp_rew_norm := False\<rparr>)" by simp
  note off = add_returns_unnormalizes_values[where st = "example_onp\<lparr>onp_rew_norm := False\<rparr>"
      and critic = example_critic and split = example_split and batch = example_batch
      and cer = example_cer and upd = example_update, THEN conjunct2, THEN mp, OF off_h]
  have v: "passed_v_s example_critic example_split example_onp example_batch = [0, 2, 20]"
    using on[THEN conjunct1] by (simp add: example_onp_fields example_critic_values)
  have v': "passed_v_s' example_critic example_split example_onp example_batch = [2, 4, 22]"
    using on[THEN conjunct2, THEN conjunct1] by (simp add: example_onp_fields example_critic_values)
  have r: "b_returns (fst (add_returns_and_advantages example_cer example_update example_critic
                        example_split example_onp example_batch)) = [1, 1, 7]"
    using on[THEN conjunct2, THEN conjunct2]
    by (simp add: v v' example_onp_fields example_cer_values)
  have r0: "b_returns (fst (add_returns_and_advantages example_cer example_update example_critic
                        example_split (example_onp\<lparr>onp_rew_norm := False\<rparr>) example_batch))
        = [2, 2, 17 / 2]"
    using off[THEN conjunct2, THEN conjunct2]
    by (simp add: example_onp_fields example_critic_values example_cer_values)
  show ?thesis using v v' r r0 example_onp_fields(1) by simp
qed

lemma example_drc_fields:
  "drc_rew_norm example_drc" "drc_gamma example_drc = 1 / 2"
  "drc_ret_rms example_drc = \<lparr>rms_mean = 0, rms_var = 1\<rparr>" "drc_eps example_drc = 1 / 10 ^ 8"
  by (simp_all add: example_drc_def DiscountedReturnComputation_init_def)

lemma example_drc_unnormalized:
  "drc_unnormalized_returns example_cer example_drc example_batch = [2, 2, 3]"
  "drc_unnormalized_returns example_cer
     (example_drc\<lparr>drc_ret_rms := \<lparr>rms_mean = 7 / 3, rms_var = 2 / 9\<rparr>\<rparr>) example_batch
     = [2, 2, 25 / 6]"
  by (simp_all add: drc_unnormalized_returns_def example_cer_def compute_episodic_return_def
      example_batch_def done_flag_def td_residual_def Let_def numeral_3_eq_3 example_drc_fields)

lemma example_update_first:
  "example_update \<lparr>rms_mean = 0, rms_var = 1\<rparr> [2, 2, 3] = \<lparr>rms_mean = 7 / 3, rms_var = 2 / 9\<rparr>"
  by (simp add: example_update_def power2_eq_square)

theorem stats_lag_one_batch_witness:
  "drc_rew_norm example_drc \<and> onp_rew_norm example_onp
   \<and> drc_unnormalized_seq example_cer example_update example_drc [example_batch, example_batch]
        = [[2, 2, 3], [2, 2, 25 / 6]]
   \<and> foldl example_update (drc_ret_rms example_drc) [[2, 2, 3]] = \<lparr>rms_mean = 7 / 3, rms_var = 2 / 9\<rparr>
   \<and> fst (drc_run example_cer example_update example_drc [example_batch, example_batch]) ! 1
        = map (\<lambda>r. (r - 7 / 3) / sqrt (2 / 9 + 1 / 10 ^ 8)) [2, 2, 25 / 6]
   \<and> b_returns (fst (onp_run example_cer example_update example_critic example_split example_onp
                        [example_batch, example_batch]) ! 1)
        = map (\<lambda>r. r / sqrt (rms_var (foldl example_update (ret_rms example_onp)
                 (take 1 (onp_unnormalized_seq example_cer example_update example_critic
                            example_split example_onp [example_batch, example_batch])))
               + onp_eps example_onp))
            (onp_unnormalized_seq example_cer example_update example_critic example_split
               example_onp [example_batch, example_batch] ! 1)"
proof -
  have k: "1 < length [example_batch, example_batch]" by simp
  note T = stats_lag_one_batch[OF example_drc_fields(1) example_onp_fields(1) k,
      where cer = example_cer and upd = example_update and critic = example_critic
        and split = example_split]
  have f: "foldl example_update (drc_ret_rms example_drc) [[2, 2, 3]]
             = \<lparr>rms_mean = 7 / 3, rms_var = 2 / 9\<rparr>"
    by (simp add: example_update_first example_drc_fields)
  have s1: "snd (add_discounted_returns example_cer example_update example_drc example_batch)
              = example_drc\<lparr>drc_ret_rms := \<lparr>rms_mean = 7 / 3, rms_var = 2 / 9\<rparr>\<rparr>"
    by (simp add: add_discounted_returns_def example_drc_fields example_drc_unnormalized
        example_update_first Let_def)
  have u: "drc_unnormalized_seq example_cer example_update example_drc [example_batch, example_batch]
        = [[2, 2, 3], [2, 2, 25 / 6]]"
    by (simp add: s1 example_drc_unnormalized)
  have rhs: "map (\<lambda>r. (r - rms_mean (foldl example_update (drc_ret_rms example_drc)
                 (take 1 (drc_unnormalized_seq example_cer example_update example_drc
                            [example_batch, example_batch]))))
               / sqrt (rms_var (foldl example_update (drc_ret_rms example_drc)
                 (take 1 (drc_unnormalized_seq example_cer example_update example_drc
                            [example_batch, example_batch])))
                 + drc_eps example_drc))
          (drc_unnormalized_seq example_cer example_update example_drc
             [example_batch, example_batch] ! 1)
        = map (\<lambda>r. (r - 7 / 3) / sqrt (2 / 9 + 1 / 10 ^ 8)) [2, 2, 25 / 6]"
    unfolding u by (simp add: example_update_first example_drc_fields)
  have o: "fst (drc_run example_cer example_update example_drc [example_batch, example_batch]) ! 1
        = map (\<lambda>r. (r - 7 / 3) / sqrt (2 / 9 + 1 / 10 ^ 8)) [2, 2, 25 / 6]"
    by (rule trans[OF T[THEN conjunct1] rhs])
  show ?thesis
    by (intro conjI example_drc_fields(1) example_onp_fields(1) u f o
        T[THEN conjunct2, THEN conjunct2, THEN conjunct1])
qed

subsection \<open>Masked q-values of DQNPolicy\<close>











subsection \<open>Construction of DiscreteCRR\<close>



subsection \<open>Action masking of DiscreteBCQPolicy\<close>











end
